theory Spec2Isabelle
  imports Complex_Main "HOL-Library.Multiset"
begin

section \<open>GeoRaster: gridding scattered points into a dense raster\<close>

text \<open>
  A shallow embedding of \<^verbatim>\<open>QueryEngine/TableFunctions/SystemFunctions/os/GeoRaster.cpp\<close>.

  Numeric types. The class is a template over a coordinate type \<open>T\<close> and a value type
  \<open>Z\<close>, each \<^verbatim>\<open>float\<close> or \<^verbatim>\<open>double\<close>. Both are modelled by \<^typ>\<open>real\<close>: arithmetic is
  exact, there is no rounding, no infinity and no NaN. A floating-point division by
  zero gives an infinity or NaN, with which the C++ goes on; the reals have no such
  value, and the model does not follow the computation further: it stops with the
  fault \<open>NonFinite\<close>, which stands for an execution outside the model and not for an
  error the code reports. \<^verbatim>\<open>std::numeric_limits<Z>::lowest()\<close> has no counterpart in the
  reals and is a parameter \<open>lowest\<close> of the constructors.

  Integers. \<^verbatim>\<open>int64_t\<close> bin counts are \<^typ>\<open>int\<close>. The product of the two bin counts
  is not checked by the code and wraps around in 64 bits, which is written out
  (\<open>wrap64\<close>). A conversion from floating point to \<^verbatim>\<open>int64_t\<close> whose truncated value is
  outside the 64-bit range has no defined result; the model stops there with the
  fault \<open>Overflow\<close>. Loop counters and bin indices are unbounded \<^typ>\<open>int\<close>.

  Memory. \<^verbatim>\<open>z_\<close> is a \<^verbatim>\<open>std::vector<Z>\<close>, modelled as a list; every access \<^verbatim>\<open>z_[i]\<close> is
  checked in the model and gives the fault \<open>OutOfBounds\<close> outside the vector.
  \<^verbatim>\<open>z_.resize(n, v)\<close> with a negative \<^verbatim>\<open>int64_t\<close> \<open>n\<close> asks for more than
  \<^verbatim>\<open>max_size()\<close> elements and throws \<^verbatim>\<open>std::length_error\<close>: the fault \<open>LengthError\<close>.
  Allocation of a non-negative number of elements is taken to succeed.
\<close>

datatype fault = NonFinite | Overflow | LengthError | OutOfBounds

definition bindf :: "fault + 'a \<Rightarrow> ('a \<Rightarrow> fault + 'b) \<Rightarrow> fault + 'b" where
  "bindf m f = (case m of Inl e \<Rightarrow> Inl e | Inr a \<Rightarrow> f a)"

text \<open>A loop whose body can fault: the body is run on each element in order, and the
  first fault ends the loop.\<close>

fun foldf :: "('a \<Rightarrow> 's \<Rightarrow> fault + 's) \<Rightarrow> 'a list \<Rightarrow> 's \<Rightarrow> fault + 's" where
  "foldf f [] s = Inr s"
| "foldf f (a # as) s = (case f a s of Inl e \<Rightarrow> Inl e | Inr s' \<Rightarrow> foldf f as s')"

subsection \<open>The raster object\<close>

record raster =
  bin_dim_meters :: real
  geographic_coords :: bool
  null_sentinel :: real
  z :: "real list"
  x_min :: real
  x_max :: real
  y_min :: real
  y_max :: real
  x_range :: real
  y_range :: real
  x_meters_per_degree :: real
  y_meters_per_degree :: real
  num_x_bins :: int
  num_y_bins :: int
  num_bins :: int
  x_scale_input_to_bin :: real
  y_scale_input_to_bin :: real
  x_scale_bin_to_input :: real
  y_scale_bin_to_input :: real

text \<open>An input row: the values of \<^verbatim>\<open>input_x\<close>, \<^verbatim>\<open>input_y\<close> and \<^verbatim>\<open>input_z\<close> at one index.
  The three columns have the same length and are read at the same index, so the input
  is a list of rows. \<^verbatim>\<open>input_z.isNull(i)\<close> is \<open>None\<close> in the third component.\<close>

type_synonym row = "real \<times> real \<times> real option"

definition row_x :: "row \<Rightarrow> real" where
  "row_x w = fst w"

definition row_y :: "row \<Rightarrow> real" where
  "row_y w = fst (snd w)"

definition row_z :: "row \<Rightarrow> real option" where
  "row_z w = snd (snd w)"

subsection \<open>Conversions\<close>

text \<open>Floating point to \<^verbatim>\<open>int64_t\<close>: truncation toward zero, undefined outside the range
  of the target type.\<close>

definition trunc :: "real \<Rightarrow> int" where
  "trunc v = (if 0 \<le> v then \<lfloor>v\<rfloor> else \<lceil>v\<rceil>)"

definition int64_ok :: "int \<Rightarrow> bool" where
  "int64_ok i = (- 9223372036854775808 \<le> i \<and> i \<le> 9223372036854775807)"

text \<open>The value an \<^verbatim>\<open>int64_t\<close> holds after an arithmetic result \<open>i\<close> that is not checked:
  two's complement wrap-around.\<close>

definition wrap64 :: "int \<Rightarrow> int" where
  "wrap64 i = (i + 9223372036854775808) mod 18446744073709551616 - 9223372036854775808"

definition to_int64 :: "real \<Rightarrow> fault + int" where
  "to_int64 v = (if int64_ok (trunc v) then Inr (trunc v) else Inl Overflow)"

text \<open>Floating-point division. A zero divisor gives an infinity or NaN, which the model
  does not represent.\<close>

definition fdiv :: "real \<Rightarrow> real \<Rightarrow> fault + real" where
  "fdiv a b = (if b = 0 then Inl NonFinite else Inr (a / b))"

subsection \<open>Helpers declared in the header\<close>

text \<open>\<^verbatim>\<open>GeoRaster.hpp\<close> and \<^verbatim>\<open>Shared/Utilities.hpp\<close> are not among the sources; the
  functions they define are modelled from the specification.\<close>

text \<open>Modelled from the spec: \<^verbatim>\<open>get_x_bin\<close> of \<^verbatim>\<open>GeoRaster.hpp\<close> is missing. The spec
  gives \<open>bin = floor((coord - min) * scale_input_to_bin)\<close>.\<close>

definition get_x_bin :: "raster \<Rightarrow> real \<Rightarrow> int" where
  "get_x_bin r v = \<lfloor>(v - x_min r) * x_scale_input_to_bin r\<rfloor>"

text \<open>Modelled from the spec: \<^verbatim>\<open>get_y_bin\<close> of \<^verbatim>\<open>GeoRaster.hpp\<close> is missing; it is
  \<open>get_x_bin\<close> on the other axis.\<close>

definition get_y_bin :: "raster \<Rightarrow> real \<Rightarrow> int" where
  "get_y_bin r v = \<lfloor>(v - y_min r) * y_scale_input_to_bin r\<rfloor>"

text \<open>Modelled from the spec: \<^verbatim>\<open>x_y_bin_to_bin_index\<close> of \<^verbatim>\<open>GeoRaster.hpp\<close> is missing.
  The spec indexes the dense buffer by \<open>x_bin + y_bin * num_x_bins\<close>, row-major with \<open>x\<close>
  fastest.\<close>

definition x_y_bin_to_bin_index :: "int \<Rightarrow> int \<Rightarrow> int \<Rightarrow> int" where
  "x_y_bin_to_bin_index x_bin y_bin n_x_bins = x_bin + y_bin * n_x_bins"

text \<open>Modelled from the spec: \<^verbatim>\<open>is_bin_out_of_bounds\<close> of \<^verbatim>\<open>GeoRaster.hpp\<close> is missing.
  The spec: a bin is out of range when one of its indices is outside
  \<open>[0, num_bins_axis)\<close>.\<close>

definition is_bin_out_of_bounds :: "raster \<Rightarrow> int \<Rightarrow> int \<Rightarrow> bool" where
  "is_bin_out_of_bounds r source_x_bin source_y_bin =
     (source_x_bin < 0 \<or> source_x_bin \<ge> num_x_bins r \<or>
      source_y_bin < 0 \<or> source_y_bin \<ge> num_y_bins r)"

text \<open>Modelled from the spec: \<^verbatim>\<open>get_column_min_max\<close> of \<^verbatim>\<open>Shared/Utilities.hpp\<close> is
  missing. The spec: one scan of the column for its minimum and maximum. It is only
  called on a column with at least one row.\<close>

definition get_column_min_max :: "real list \<Rightarrow> real \<times> real" where
  "get_column_min_max col = (fold min (tl col) (hd col), fold max (tl col) (hd col))"

text \<open>The checked vector access \<^verbatim>\<open>z_[i]\<close>.\<close>

definition z_at :: "raster \<Rightarrow> int \<Rightarrow> fault + real" where
  "z_at r i = (if 0 \<le> i \<and> i < int (length (z r)) then Inr (z r ! nat i) else Inl OutOfBounds)"

definition z_set :: "raster \<Rightarrow> int \<Rightarrow> real \<Rightarrow> fault + raster" where
  "z_set r i v =
     (if 0 \<le> i \<and> i < int (length (z r)) then Inr (r\<lparr>z := (z r)[nat i := v]\<rparr>)
      else Inl OutOfBounds)"

subsection \<open>Bin alignment\<close>

definition align_bins_max_inclusive :: "raster \<Rightarrow> fault + raster" where
  "align_bins_max_inclusive r =
     (let d = bin_dim_meters r in
      if d = 0 then Inl NonFinite
      else Inr (r\<lparr>x_min := of_int \<lfloor>x_min r / d\<rfloor> * d,
                  x_max := of_int \<lfloor>x_max r / d\<rfloor> * d + d,
                  y_min := of_int \<lfloor>y_min r / d\<rfloor> * d,
                  y_max := of_int \<lfloor>y_max r / d\<rfloor> * d + d\<rparr>))"

definition align_bins_max_exclusive :: "raster \<Rightarrow> fault + raster" where
  "align_bins_max_exclusive r =
     (let d = bin_dim_meters r in
      if d = 0 then Inl NonFinite
      else Inr (r\<lparr>x_min := of_int \<lfloor>x_min r / d\<rfloor> * d,
                  x_max := of_int \<lceil>x_max r / d\<rceil> * d,
                  y_min := of_int \<lfloor>y_min r / d\<rfloor> * d,
                  y_max := of_int \<lceil>y_max r / d\<rceil> * d\<rparr>))"

subsection \<open>Bin counts and scales\<close>

text \<open>\<^verbatim>\<open>distance_in_meters\<close> is defined in \<^verbatim>\<open>Shared/Utilities.hpp\<close>, which is not among the
  sources; it is the parameter \<open>dmeters\<close>.\<close>

type_synonym distance = "real \<Rightarrow> real \<Rightarrow> real \<Rightarrow> real \<Rightarrow> real"

text \<open>\<^verbatim>\<open>num_bins_ = num_x_bins_ * num_y_bins_\<close>, the last statement of
  \<^verbatim>\<open>calculate_bins_and_scales\<close>: the product is not checked.\<close>

definition set_num_bins :: "raster \<Rightarrow> raster" where
  "set_num_bins r = r\<lparr>num_bins := wrap64 (num_x_bins r * num_y_bins r)\<rparr>"

definition calculate_bins_and_scales :: "distance \<Rightarrow> raster \<Rightarrow> fault + raster" where
  "calculate_bins_and_scales dmeters r0 =
     (let r = r0\<lparr>x_range := x_max r0 - x_min r0, y_range := y_max r0 - y_min r0\<rparr>;
          d = bin_dim_meters r
      in if geographic_coords r then
           (let x_centroid = (x_min r + x_max r) * 0.5;
                y_centroid = (y_min r + y_max r) * 0.5
            in bindf (fdiv (dmeters (x_min r) y_centroid (x_max r) y_centroid) (x_range r)) (\<lambda>xm.
               bindf (fdiv (dmeters x_centroid (y_min r) x_centroid (y_max r)) (y_range r)) (\<lambda>ym.
               bindf (fdiv (x_range r * xm) d) (\<lambda>qx.
               bindf (to_int64 qx) (\<lambda>nx.
               bindf (fdiv (y_range r * ym) d) (\<lambda>qy.
               bindf (to_int64 qy) (\<lambda>ny.
               bindf (fdiv xm d) (\<lambda>xs.
               bindf (fdiv ym d) (\<lambda>ys.
               bindf (fdiv d xm) (\<lambda>xb.
               bindf (fdiv d ym) (\<lambda>yb.
               Inr (set_num_bins
                 (r\<lparr>x_meters_per_degree := xm, y_meters_per_degree := ym,
                    num_x_bins := nx, num_y_bins := ny,
                    x_scale_input_to_bin := xs, y_scale_input_to_bin := ys,
                    x_scale_bin_to_input := xb, y_scale_bin_to_input := yb\<rparr>)))))))))))))
         else
           bindf (fdiv (x_range r) d) (\<lambda>qx.
           bindf (to_int64 qx) (\<lambda>nx.
           bindf (fdiv (y_range r) d) (\<lambda>qy.
           bindf (to_int64 qy) (\<lambda>ny.
           bindf (fdiv 1.0 d) (\<lambda>s.
           Inr (set_num_bins
             (r\<lparr>num_x_bins := nx, num_y_bins := ny,
                x_scale_input_to_bin := s, y_scale_input_to_bin := s,
                x_scale_bin_to_input := d, y_scale_bin_to_input := d\<rparr>))))))))"

subsection \<open>Scatter aggregation\<close>

text \<open>The body of the loop of \<^verbatim>\<open>compute\<close> for one input row.\<close>

definition compute_row :: "row \<Rightarrow> raster \<Rightarrow> fault + raster" where
  "compute_row w r =
     (let x_bin = get_x_bin r (row_x w);
          y_bin = get_y_bin r (row_y w)
      in if x_bin < 0 \<or> x_bin \<ge> num_x_bins r \<or> y_bin < 0 \<or> y_bin \<ge> num_y_bins r
         then Inr r
         else
           (let bin_idx = x_y_bin_to_bin_index x_bin y_bin (num_x_bins r)
            in case row_z w of
                 None \<Rightarrow> Inr r
               | Some v \<Rightarrow>
                   bindf (z_at r bin_idx) (\<lambda>cur.
                     if v > cur then z_set r bin_idx v else Inr r)))"

definition compute :: "raster \<Rightarrow> row list \<Rightarrow> fault + raster" where
  "compute r input =
     (if num_bins r < 0 then Inl LengthError
      else foldf compute_row input
             (r\<lparr>z := take (nat (num_bins r)) (z r) @
                      replicate (nat (num_bins r) - length (z r)) (null_sentinel r)\<rparr>))"

subsection \<open>Constructors\<close>

text \<open>\<open>mem\<close> is the storage of the object before construction: a member that the
  constructor does not assign keeps the value it has there, which is indeterminate.
  \<^verbatim>\<open>z_\<close> is default-constructed as the empty vector.\<close>

definition init_members :: "raster \<Rightarrow> real \<Rightarrow> real \<Rightarrow> bool \<Rightarrow> raster" where
  "init_members mem lowest d geo =
     mem\<lparr>bin_dim_meters := d, geographic_coords := geo, null_sentinel := lowest, z := []\<rparr>"

definition GeoRaster_data ::
  "distance \<Rightarrow> raster \<Rightarrow> real \<Rightarrow> row list \<Rightarrow> real \<Rightarrow> bool \<Rightarrow> bool \<Rightarrow> fault + raster" where
  "GeoRaster_data dmeters mem lowest input d geo align =
     (let r = init_members mem lowest d geo in
      if int (length input) \<le> 0
      then Inr (r\<lparr>num_bins := 0, num_x_bins := 0, num_y_bins := 0\<rparr>)
      else
        (let min_max_x = get_column_min_max (map row_x input);
             min_max_y = get_column_min_max (map row_y input);
             r1 = r\<lparr>x_min := fst min_max_x, x_max := snd min_max_x,
                    y_min := fst min_max_y, y_max := snd min_max_y\<rparr>
         in bindf (if align \<and> \<not> geographic_coords r1
                   then align_bins_max_inclusive r1 else Inr r1) (\<lambda>r2.
            bindf (calculate_bins_and_scales dmeters r2) (\<lambda>r3.
            compute r3 input))))"

definition GeoRaster_bounds ::
  "distance \<Rightarrow> raster \<Rightarrow> real \<Rightarrow> row list \<Rightarrow> real \<Rightarrow> bool \<Rightarrow> bool \<Rightarrow>
   real \<Rightarrow> real \<Rightarrow> real \<Rightarrow> real \<Rightarrow> fault + raster" where
  "GeoRaster_bounds dmeters mem lowest input d geo align xmin xmax ymin ymax =
     (let r1 = (init_members mem lowest d geo)
                 \<lparr>x_min := xmin, x_max := xmax, y_min := ymin, y_max := ymax\<rparr>
      in bindf (if align \<and> \<not> geographic_coords r1
                then align_bins_max_exclusive r1 else Inr r1) (\<lambda>r2.
         bindf (calculate_bins_and_scales dmeters r2) (\<lambda>r3.
         compute r3 input)))"

subsection \<open>Read-only queries\<close>

definition offset_source_z_from_raster_z :: "raster \<Rightarrow> int \<Rightarrow> int \<Rightarrow> real \<Rightarrow> fault + real" where
  "offset_source_z_from_raster_z r source_x_bin source_y_bin source_z_offset =
     (if is_bin_out_of_bounds r source_x_bin source_y_bin then Inr (null_sentinel r)
      else bindf (z_at r (x_y_bin_to_bin_index source_x_bin source_y_bin (num_x_bins r)))
             (\<lambda>terrain_z. if terrain_z = null_sentinel r then Inr terrain_z
                           else Inr (terrain_z + source_z_offset)))"

text \<open>The body of the inner loop of \<^verbatim>\<open>fill_bin_from_avg_neighbors\<close>; the state is the
  pair of the running sum \<^verbatim>\<open>val\<close> and \<^verbatim>\<open>count\<close>.\<close>

definition avg_cell :: "raster \<Rightarrow> int \<Rightarrow> int \<Rightarrow> real \<times> int \<Rightarrow> fault + real \<times> int" where
  "avg_cell r y_bin x_bin acc =
     (if x_bin \<ge> 0 \<and> x_bin < num_x_bins r \<and> y_bin \<ge> 0 \<and> y_bin < num_y_bins r
      then bindf (z_at r (x_y_bin_to_bin_index x_bin y_bin (num_x_bins r)))
             (\<lambda>bin_val. if bin_val \<noteq> null_sentinel r
                         then Inr (fst acc + bin_val, snd acc + 1) else Inr acc)
      else Inr acc)"

definition fill_bin_from_avg_neighbors :: "raster \<Rightarrow> int \<Rightarrow> int \<Rightarrow> int \<Rightarrow> fault + real" where
  "fill_bin_from_avg_neighbors r x_centroid_bin y_centroid_bin bins_radius =
     bindf (foldf (\<lambda>y_bin. foldf (avg_cell r y_bin)
                     [x_centroid_bin - bins_radius .. x_centroid_bin + bins_radius])
              [y_centroid_bin - bins_radius .. y_centroid_bin + bins_radius] (0, 0))
       (\<lambda>acc. Inr (if snd acc = 0 then null_sentinel r else fst acc / of_int (snd acc)))"

subsection \<open>Dense emission\<close>

text \<open>The output columns. \<^verbatim>\<open>set_output_row_size\<close> declares \<open>row_size\<close> rows; every
  iteration of the emitter writes \<^verbatim>\<open>output_x\<close>, \<^verbatim>\<open>output_y\<close> and \<^verbatim>\<open>output_z\<close> at one
  row index, and \<open>rows\<close> records these writes in the order they are made: the row index,
  the two coordinates and the value, \<open>None\<close> for a cell left null by \<^verbatim>\<open>setNull\<close>. A write
  outside the declared rows is the fault \<open>OutOfBounds\<close>.\<close>

type_synonym out_row = "int \<times> real \<times> real \<times> real option"

record out_columns =
  row_size :: int
  rows :: "out_row list"

definition write_row :: "out_columns \<Rightarrow> out_row \<Rightarrow> fault + out_columns" where
  "write_row out w =
     (if 0 \<le> fst w \<and> fst w < row_size out then Inr (out\<lparr>rows := rows out @ [w]\<rparr>)
      else Inl OutOfBounds)"

definition emit_bin :: "raster \<Rightarrow> int \<Rightarrow> int \<Rightarrow> int \<Rightarrow> out_columns \<Rightarrow> fault + out_columns" where
  "emit_bin r neighborhood_null_fill_radius y_bin x_bin out =
     (let bin_idx = x_y_bin_to_bin_index x_bin y_bin (num_x_bins r);
          ox = x_min r + (of_int x_bin + 0.5) * x_scale_bin_to_input r;
          oy = y_min r + (of_int y_bin + 0.5) * y_scale_bin_to_input r
      in bindf (z_at r bin_idx) (\<lambda>z_val.
           if z_val = null_sentinel r then
             (if neighborhood_null_fill_radius \<noteq> 0 then
                bindf (fill_bin_from_avg_neighbors r x_bin y_bin neighborhood_null_fill_radius)
                  (\<lambda>avg_neighbor_value.
                     write_row out (bin_idx, ox, oy,
                       if avg_neighbor_value \<noteq> null_sentinel r
                       then Some avg_neighbor_value else None))
              else write_row out (bin_idx, ox, oy, None))
           else write_row out (bin_idx, ox, oy, Some z_val)))"

definition outputDenseColumns :: "raster \<Rightarrow> int \<Rightarrow> fault + out_columns \<times> int" where
  "outputDenseColumns r neighborhood_null_fill_radius =
     bindf (foldf (\<lambda>y_bin. foldf (emit_bin r neighborhood_null_fill_radius y_bin)
                     [0 .. num_x_bins r - 1])
              [0 .. num_y_bins r - 1] \<lparr>row_size = num_bins r, rows = []\<rparr>)
       (\<lambda>out. Inr (out, num_bins r))"

subsection \<open>Vocabulary of the properties\<close>

text \<open>The grid invariant: the dense buffer has one cell per bin, and the number of
  bins is the product of the two bin counts.\<close>

definition grid_ok :: "raster \<Rightarrow> bool" where
  "grid_ok r = (num_bins r = num_x_bins r * num_y_bins r \<and> int (length (z r)) = num_bins r)"

text \<open>The dense index of the bin an input row maps into, \<open>None\<close> when one of its bin
  indices is outside the grid: the test and the index of \<^verbatim>\<open>compute\<close>.\<close>

definition row_bin :: "raster \<Rightarrow> row \<Rightarrow> int option" where
  "row_bin r w =
     (let x_bin = get_x_bin r (row_x w);
          y_bin = get_y_bin r (row_y w)
      in if x_bin < 0 \<or> x_bin \<ge> num_x_bins r \<or> y_bin < 0 \<or> y_bin \<ge> num_y_bins r
         then None
         else Some (x_y_bin_to_bin_index x_bin y_bin (num_x_bins r)))"

text \<open>The non-null \<open>z\<close> values of the rows that map into the bin of dense index \<open>i\<close>, in
  input order.\<close>

definition bin_values :: "raster \<Rightarrow> row list \<Rightarrow> int \<Rightarrow> real list" where
  "bin_values r input i =
     List.map_filter (\<lambda>w. if row_bin r w = Some i then row_z w else None) input"

text \<open>A row contributes when it maps into the grid and its \<open>z\<close> value is not null.\<close>

definition contributes :: "raster \<Rightarrow> row \<Rightarrow> bool" where
  "contributes r w = (row_bin r w \<noteq> None \<and> row_z w \<noteq> None)"


text \<open>The effect of one iteration of the loop of \<^verbatim>\<open>compute\<close> on the dense buffer, as
  a function on lists: \<open>compute_row\<close> without the bounds checks.\<close>

definition agg :: "raster \<Rightarrow> row \<Rightarrow> real list \<Rightarrow> real list" where
  "agg r w zs =
     (case row_bin r w of
        None \<Rightarrow> zs
      | Some i \<Rightarrow>
          (case row_z w of
             None \<Rightarrow> zs
           | Some v \<Rightarrow> if v > zs ! nat i then zs[nat i := v] else zs))"

text \<open>A row whose update indexes the dense buffer outside its bounds: it maps into the
  grid, its \<open>z\<close> value is not null, and its dense index is not below the length of the
  buffer.\<close>

definition oob_row :: "raster \<Rightarrow> row \<Rightarrow> bool" where
  "oob_row r w =
     (case row_bin r w of
        None \<Rightarrow> False
      | Some i \<Rightarrow> (case row_z w of None \<Rightarrow> False | Some v \<Rightarrow> int (length (z r)) \<le> i))"

text \<open>The cells of the grid inside the window of the neighbourhood averager, in scan
  order, and the non-null values stored there.\<close>

definition window_cells :: "raster \<Rightarrow> int \<Rightarrow> int \<Rightarrow> int \<Rightarrow> (int \<times> int) list" where
  "window_cells r x_centroid_bin y_centroid_bin bins_radius =
     concat (map (\<lambda>y_bin.
       map (\<lambda>x_bin. (x_bin, y_bin))
         (filter (\<lambda>x_bin. x_bin \<ge> 0 \<and> x_bin < num_x_bins r \<and> y_bin \<ge> 0 \<and> y_bin < num_y_bins r)
            [x_centroid_bin - bins_radius .. x_centroid_bin + bins_radius]))
       [y_centroid_bin - bins_radius .. y_centroid_bin + bins_radius])"

definition cell_value :: "raster \<Rightarrow> int \<times> int \<Rightarrow> real" where
  "cell_value r c = z r ! nat (x_y_bin_to_bin_index (fst c) (snd c) (num_x_bins r))"

definition window_values :: "raster \<Rightarrow> int \<Rightarrow> int \<Rightarrow> int \<Rightarrow> real list" where
  "window_values r x_centroid_bin y_centroid_bin bins_radius =
     filter (\<lambda>v. v \<noteq> null_sentinel r)
       (map (cell_value r) (window_cells r x_centroid_bin y_centroid_bin bins_radius))"

definition mean :: "real list \<Rightarrow> real" where
  "mean vs = sum_list vs / of_nat (length vs)"

text \<open>The cells of one row of a scan, and the non-null values stored at a list of cells.\<close>

definition row_cells :: "raster \<Rightarrow> int \<Rightarrow> int list \<Rightarrow> (int \<times> int) list" where
  "row_cells r y xs =
     map (\<lambda>x. (x, y)) (filter (\<lambda>x. x \<ge> 0 \<and> x < num_x_bins r \<and> y \<ge> 0 \<and> y < num_y_bins r) xs)"

definition live_values :: "raster \<Rightarrow> (int \<times> int) list \<Rightarrow> real list" where
  "live_values r cs = filter (\<lambda>v. v \<noteq> null_sentinel r) (map (cell_value r) cs)"

text \<open>The cells of the grid in row-major order, \<open>x\<close> fastest.\<close>

definition grid_cells :: "raster \<Rightarrow> (int \<times> int) list" where
  "grid_cells r =
     concat (map (\<lambda>y_bin. map (\<lambda>x_bin. (x_bin, y_bin)) [0 .. num_x_bins r - 1])
               [0 .. num_y_bins r - 1])"

text \<open>The output row the specification describes for a bin: its dense index, the
  centroid of the bin, and the value: the stored value when it is not null; otherwise
  null when the fill radius is zero, and otherwise the result of the neighbourhood
  averager when that is not null.\<close>

definition expected_value :: "raster \<Rightarrow> int \<Rightarrow> int \<times> int \<Rightarrow> real option" where
  "expected_value r radius c =
     (if cell_value r c \<noteq> null_sentinel r then Some (cell_value r c)
      else if radius = 0 then None
      else (case fill_bin_from_avg_neighbors r (fst c) (snd c) radius of
              Inr avg \<Rightarrow> if avg \<noteq> null_sentinel r then Some avg else None
            | Inl e \<Rightarrow> None))"

definition expected_row :: "raster \<Rightarrow> int \<Rightarrow> int \<times> int \<Rightarrow> out_row" where
  "expected_row r radius c =
     (fst c + snd c * num_x_bins r,
      x_min r + (of_int (fst c) + 0.5) * x_scale_bin_to_input r,
      y_min r + (of_int (snd c) + 0.5) * y_scale_bin_to_input r,
      expected_value r radius c)"





subsection \<open>Concrete data for the examples\<close>

text \<open>An object storage with every member zero, and a distance function; the planar
  examples use neither the unassigned members nor the distance.\<close>

definition zero_mem :: raster where
  "zero_mem = \<lparr>bin_dim_meters = 0, geographic_coords = False, null_sentinel = 0, z = [],
     x_min = 0, x_max = 0, y_min = 0, y_max = 0, x_range = 0, y_range = 0,
     x_meters_per_degree = 0, y_meters_per_degree = 0,
     num_x_bins = 0, num_y_bins = 0, num_bins = 0,
     x_scale_input_to_bin = 0, y_scale_input_to_bin = 0,
     x_scale_bin_to_input = 0, y_scale_bin_to_input = 0\<rparr>"

definition flat_distance :: distance where
  "flat_distance x1 y1 x2 y2 = \<bar>x2 - x1\<bar> + \<bar>y2 - y1\<bar>"

text \<open>Four rows over the domain \<open>[0, 100] \<times> [0, 100]\<close> with bins of 50: two in bin
  \<open>(0, 0)\<close> with values 3 and 7, one outside the domain, one with a null value.\<close>

definition example_input :: "row list" where
  "example_input = [(10, 10, Some 3), (20, 20, Some 7), (500, 10, Some 99), (60, 60, None)]"

definition example_raster :: "fault + raster" where
  "example_raster =
     GeoRaster_bounds flat_distance zero_mem (- 1000) example_input 50 False False 0 100 0 100"

text \<open>The rows of \<open>example_input\<close> in another order.\<close>

definition example_shuffled :: "row list" where
  "example_shuffled = [(60, 60, None), (20, 20, Some 7), (500, 10, Some 99), (10, 10, Some 3)]"

text \<open>The scenario of the specification: the domain \<open>[0, 100] \<times> [0, 100]\<close> with bins
  of 50 and the points \<open>(10, 10, 5)\<close> and \<open>(60, 60, 9)\<close>; a strip of three bins with
  data in the first only; and a raster built from bounds that are inverted on both
  axes.\<close>

definition scenario_raster :: "fault + raster" where
  "scenario_raster =
     GeoRaster_bounds flat_distance zero_mem (- 1000) [(10, 10, Some 5), (60, 60, Some 9)]
       50 False False 0 100 0 100"

definition strip_raster :: "fault + raster" where
  "strip_raster =
     GeoRaster_bounds flat_distance zero_mem (- 1000) [(10, 10, Some 3), (20, 20, Some 7)]
       50 False False 0 150 0 50"



text \<open>Data from 0 to 40 on both axes with bins of 10 and alignment: bounds derived
  from the data, and the same numbers as explicit bounds.\<close>

definition aligned_data_raster :: "fault + raster" where
  "aligned_data_raster =
     GeoRaster_data flat_distance zero_mem (- 1000) [(0, 0, Some 1), (40, 40, Some 2)]
       10 False True"

definition aligned_bounds_raster :: "fault + raster" where
  "aligned_bounds_raster =
     GeoRaster_bounds flat_distance zero_mem (- 1000) [(0, 0, Some 1), (40, 40, Some 2)]
       10 False True 0 40 0 40"


definition empty_bounds_raster :: "fault + raster" where
  "empty_bounds_raster =
     GeoRaster_bounds flat_distance zero_mem (- 1000) [] 50 False False 0 100 0 100"

definition single_point_raster :: "fault + raster" where
  "single_point_raster =
     GeoRaster_data flat_distance zero_mem (- 1000) [(10, 10, Some 5)] 50 False False"





section \<open>Auxiliary lemmas\<close>

subsection \<open>Faults and loops\<close>

lemma bindf_Inr [simp]: "bindf (Inr a) f = f a"
  by (simp add: bindf_def)

lemma bindf_Inl [simp]: "bindf (Inl e) f = Inl e"
  by (simp add: bindf_def)

lemma bindf_eq_Inr: "bindf m f = Inr b \<longleftrightarrow> (\<exists>a. m = Inr a \<and> f a = Inr b)"
  by (cases m) simp_all


lemma bin_index_bounds:
  fixes x y nx ny :: int
  assumes "0 \<le> x" "x < nx" "0 \<le> y" "y < ny"
  shows "0 \<le> x + y * nx" and "x + y * nx < nx * ny"
proof -
  from assms show "0 \<le> x + y * nx" by simp
  have "y * nx \<le> (ny - 1) * nx"
    using assms by (intro mult_right_mono) auto
  then have "x + y * nx < nx + (ny - 1) * nx" using assms by linarith
  also have "\<dots> = nx * ny" by (simp add: algebra_simps)
  finally show "x + y * nx < nx * ny" .
qed

subsection \<open>The aggregation loop\<close>

lemma row_bin_z_update [simp]: "row_bin (r\<lparr>z := zs\<rparr>) w = row_bin r w"
  by (simp add: row_bin_def get_x_bin_def get_y_bin_def Let_def)

lemma agg_z_update [simp]: "agg (r\<lparr>z := zs\<rparr>) = agg r"
  by (simp add: agg_def fun_eq_iff)

lemma length_agg [simp]: "length (agg r w zs) = length zs"
  by (simp add: agg_def split: option.splits)

lemma row_bin_range:
  assumes "row_bin r w = Some i"
  shows "0 \<le> i \<and> i < num_x_bins r * num_y_bins r"
  using assms bin_index_bounds[of "get_x_bin r (row_x w)" "num_x_bins r"
      "get_y_bin r (row_y w)" "num_y_bins r"]
  by (auto simp: row_bin_def Let_def x_y_bin_to_bin_index_def split: if_splits)



lemma length_fold_agg [simp]: "length (fold (agg r) input zs) = length zs"
  by (induction input arbitrary: zs) auto

lemma bin_values_Nil [simp]: "bin_values r [] i = []"
  by (simp add: bin_values_def)

lemma bin_values_Cons:
  "bin_values r (w # ws) i =
     (if row_bin r w = Some i
      then (case row_z w of None \<Rightarrow> bin_values r ws i | Some v \<Rightarrow> v # bin_values r ws i)
      else bin_values r ws i)"
  by (simp add: bin_values_def split: option.splits)

lemma bin_values_z_update [simp]: "bin_values (r\<lparr>z := zs\<rparr>) input i = bin_values r input i"
  by (simp add: bin_values_def)

lemma nth_agg:
  assumes "n < length zs"
  shows "agg r w zs ! n =
     (if row_bin r w = Some (int n)
      then (case row_z w of None \<Rightarrow> zs ! n | Some v \<Rightarrow> max (zs ! n) v) else zs ! n)"
proof (cases "row_bin r w")
  case None
  then show ?thesis by (simp add: agg_def)
next
  case (Some i)
  from row_bin_range[OF Some] have "0 \<le> i" by simp
  then have eq: "(nat i = n) = (i = int n)" by auto
  show ?thesis using Some assms eq
    by (auto simp: agg_def nth_list_update max_def split: option.splits)
qed

lemma nth_fold_agg:
  assumes "n < length zs"
  shows "fold (agg r) input zs ! n = fold max (bin_values r input (int n)) (zs ! n)"
  using assms
proof (induction input arbitrary: zs)
  case Nil
  then show ?case by simp
next
  case (Cons w ws)
  then have "n < length (agg r w zs)" by simp
  from Cons.IH[OF this] show ?case
    using Cons.prems by (simp add: nth_agg bin_values_Cons max.commute split: option.splits)
qed

lemma fold_max_Max: "fold max vs (s::real) = Max (insert s (set vs))"
proof -
  have "fold max vs s = Max (set (s # vs))" by (simp only: Max.set_eq_fold)
  then show ?thesis by simp
qed

subsection \<open>Construction\<close>



lemma oob_row_z_update: "length zs = length (z r) \<Longrightarrow> oob_row (r\<lparr>z := zs\<rparr>) w = oob_row r w"
  by (simp add: oob_row_def split: option.splits)

lemma compute_row_cases:
  "compute_row w r = (if oob_row r w then Inl OutOfBounds else Inr (r\<lparr>z := agg r w (z r)\<rparr>))"
proof (cases "row_bin r w")
  case None
  then show ?thesis
    by (auto simp: compute_row_def row_bin_def agg_def oob_row_def Let_def split: if_splits)
next
  case (Some i)
  with row_bin_range[OF Some] show ?thesis
    by (auto simp: compute_row_def row_bin_def agg_def oob_row_def Let_def z_at_def z_set_def
        split: if_splits option.splits)
qed

lemma foldf_compute_row_cases:
  "foldf compute_row input r =
     (if \<exists>w\<in>set input. oob_row r w then Inl OutOfBounds
      else Inr (r\<lparr>z := fold (agg r) input (z r)\<rparr>))"
proof (induction input arbitrary: r)
  case Nil
  then show ?case by simp
next
  case (Cons w ws)
  show ?case
  proof (cases "oob_row r w")
    case True
    then show ?thesis by (simp add: compute_row_cases)
  next
    case False
    let ?r' = "r\<lparr>z := agg r w (z r)\<rparr>"
    have o: "oob_row ?r' v = oob_row r v" for v
      by (rule oob_row_z_update) simp
    from False Cons.IH[of ?r'] show ?thesis
      by (simp add: compute_row_cases o)
  qed
qed

lemma compute_cases:
  "compute r input =
     (if num_bins r < 0 then Inl LengthError
      else if \<exists>w\<in>set input.
                oob_row (r\<lparr>z := take (nat (num_bins r)) (z r) @
                     replicate (nat (num_bins r) - length (z r)) (null_sentinel r)\<rparr>) w
           then Inl OutOfBounds
           else Inr (r\<lparr>z := fold (agg r) input
                      (take (nat (num_bins r)) (z r) @
                       replicate (nat (num_bins r) - length (z r)) (null_sentinel r))\<rparr>))"
  by (simp add: compute_def foldf_compute_row_cases)

lemma compute_result:
  assumes "compute r input = Inr r'" "z r = []"
  shows "0 \<le> num_bins r"
    and "r' = r\<lparr>z := fold (agg r) input (replicate (nat (num_bins r)) (null_sentinel r))\<rparr>"
  using assms by (auto simp: compute_cases split: if_splits)

lemma calculate_frame:
  assumes "calculate_bins_and_scales dmeters r0 = Inr r"
  shows "num_bins r = wrap64 (num_x_bins r * num_y_bins r)" "z r = z r0"
    "null_sentinel r = null_sentinel r0"
    "x_min r = x_min r0" "x_max r = x_max r0" "y_min r = y_min r0" "y_max r = y_max r0"
    "bin_dim_meters r = bin_dim_meters r0" "geographic_coords r = geographic_coords r0"
    "bin_dim_meters r0 \<noteq> 0"
  using assms
  by (auto simp: calculate_bins_and_scales_def Let_def bindf_eq_Inr fdiv_def set_num_bins_def
      split: if_splits)

lemma align_inclusive_frame:
  assumes "align_bins_max_inclusive r0 = Inr r"
  shows "z r = z r0" "null_sentinel r = null_sentinel r0"
    "bin_dim_meters r = bin_dim_meters r0" "geographic_coords r = geographic_coords r0"
  using assms by (auto simp: align_bins_max_inclusive_def Let_def split: if_splits)

lemma align_exclusive_frame:
  assumes "align_bins_max_exclusive r0 = Inr r"
  shows "z r = z r0" "null_sentinel r = null_sentinel r0"
    "bin_dim_meters r = bin_dim_meters r0" "geographic_coords r = geographic_coords r0"
  using assms by (auto simp: align_bins_max_exclusive_def Let_def split: if_splits)

lemma GeoRaster_data_Inr:
  assumes "GeoRaster_data dmeters mem lowest input d geo align = Inr r" "input \<noteq> []"
  shows "\<exists>r2 r3. (if align \<and> \<not> geo
            then align_bins_max_inclusive
                   ((init_members mem lowest d geo)
                      \<lparr>x_min := fst (get_column_min_max (map row_x input)),
                       x_max := snd (get_column_min_max (map row_x input)),
                       y_min := fst (get_column_min_max (map row_y input)),
                       y_max := snd (get_column_min_max (map row_y input))\<rparr>)
            else Inr ((init_members mem lowest d geo)
                      \<lparr>x_min := fst (get_column_min_max (map row_x input)),
                       x_max := snd (get_column_min_max (map row_x input)),
                       y_min := fst (get_column_min_max (map row_y input)),
                       y_max := snd (get_column_min_max (map row_y input))\<rparr>)) = Inr r2 \<and>
          calculate_bins_and_scales dmeters r2 = Inr r3 \<and> compute r3 input = Inr r"
  using assms
  by (cases "align \<and> \<not> geo")
     (auto simp: GeoRaster_data_def Let_def bindf_eq_Inr init_members_def)

lemma GeoRaster_bounds_Inr:
  assumes "GeoRaster_bounds dmeters mem lowest input d geo align xmin xmax ymin ymax = Inr r"
  shows "\<exists>r2 r3. (if align \<and> \<not> geo
            then align_bins_max_exclusive
                   ((init_members mem lowest d geo)
                      \<lparr>x_min := xmin, x_max := xmax, y_min := ymin, y_max := ymax\<rparr>)
            else Inr ((init_members mem lowest d geo)
                      \<lparr>x_min := xmin, x_max := xmax, y_min := ymin, y_max := ymax\<rparr>)) = Inr r2 \<and>
          calculate_bins_and_scales dmeters r2 = Inr r3 \<and> compute r3 input = Inr r"
  using assms
  by (cases "align \<and> \<not> geo")
     (auto simp: GeoRaster_bounds_def Let_def bindf_eq_Inr init_members_def)








lemma contributes_z_update [simp]: "contributes (r\<lparr>z := zs\<rparr>) w = contributes r w"
  by (simp add: contributes_def)



section \<open>Scatter aggregation\<close>



section \<open>Order independence\<close>

lemma bindf_cong: "(\<And>a. m = Inr a \<Longrightarrow> f a = g a) \<Longrightarrow> bindf m f = bindf m g"
  by (cases m) simp_all

lemma mset_bin_values:
  assumes "mset input = mset input'"
  shows "mset (bin_values r input i) = mset (bin_values r input' i)"
proof -
  have "mset (bin_values r ws i) =
        image_mset (the \<circ> (\<lambda>w. if row_bin r w = Some i then row_z w else None))
          (filter_mset (\<lambda>w. (if row_bin r w = Some i then row_z w else None) \<noteq> None) (mset ws))" for ws
    by (simp add: bin_values_def List.map_filter_def)
  with assms show ?thesis by simp
qed

lemma fold_agg_perm:
  assumes "mset input = mset input'"
  shows "fold (agg r) input zs = fold (agg r) input' zs"
proof (rule nth_equalityI)
  show "length (fold (agg r) input zs) = length (fold (agg r) input' zs)" by simp
next
  fix n assume "n < length (fold (agg r) input zs)"
  then have n: "n < length zs" by simp
  have "set (bin_values r input (int n)) = set (bin_values r input' (int n))"
    using mset_bin_values[OF assms] by (rule mset_eq_setD)
  then show "fold (agg r) input zs ! n = fold (agg r) input' zs ! n"
    by (simp add: nth_fold_agg[OF n] fold_max_Max)
qed

lemma compute_perm:
  assumes "mset input = mset input'"
  shows "compute r input = compute r input'"
proof -
  have "set input = set input'" using assms by (rule mset_eq_setD)
  with fold_agg_perm[OF assms] show ?thesis by (simp add: compute_cases)
qed

lemma get_column_min_max_set:
  assumes "col \<noteq> []"
  shows "get_column_min_max col = (Min (set col), Max (set col))"
proof -
  from assms obtain c cs where col: "col = c # cs" by (cases col) auto
  show ?thesis
    unfolding col get_column_min_max_def
    by (simp only: Min.set_eq_fold Max.set_eq_fold list.sel)
qed

lemma get_column_min_max_perm:
  assumes "mset col = mset col'"
  shows "get_column_min_max col = get_column_min_max col'"
proof (cases "col = []")
  case True
  with assms show ?thesis by simp
next
  case False
  with assms have "col' \<noteq> []" by auto
  moreover from assms have "set col = set col'" by (rule mset_eq_setD)
  ultimately show ?thesis using False by (simp add: get_column_min_max_set)
qed

lemma calc_compute_perm:
  assumes "mset input = mset input'"
  shows "bindf (calculate_bins_and_scales dmeters r2) (\<lambda>r3. compute r3 input) =
         bindf (calculate_bins_and_scales dmeters r2) (\<lambda>r3. compute r3 input')"
  by (rule bindf_cong) (rule compute_perm[OF assms])

lemma GeoRaster_data_perm:
  assumes "mset input = mset input'"
  shows "GeoRaster_data dmeters mem lowest input d geo align =
         GeoRaster_data dmeters mem lowest input' d geo align"
proof -
  have len: "length input = length input'" using assms by (rule mset_eq_length)
  have mx: "get_column_min_max (map row_x input) = get_column_min_max (map row_x input')"
    using assms by (intro get_column_min_max_perm) simp
  have my: "get_column_min_max (map row_y input) = get_column_min_max (map row_y input')"
    using assms by (intro get_column_min_max_perm) simp
  have step: "bindf m (\<lambda>r2. bindf (calculate_bins_and_scales dmeters r2) (\<lambda>r3. compute r3 input)) =
        bindf m (\<lambda>r2. bindf (calculate_bins_and_scales dmeters r2) (\<lambda>r3. compute r3 input'))"
    for m
    by (intro bindf_cong calc_compute_perm[OF assms])
  show ?thesis
  proof (cases "int (length input') \<le> 0")
    case True
    then show ?thesis by (simp add: GeoRaster_data_def Let_def len)
  next
    case False
    show ?thesis
      unfolding GeoRaster_data_def Let_def len mx my if_not_P[OF False]
      by (rule step)
  qed
qed

lemma GeoRaster_bounds_perm:
  assumes "mset input = mset input'"
  shows "GeoRaster_bounds dmeters mem lowest input d geo align xmin xmax ymin ymax =
         GeoRaster_bounds dmeters mem lowest input' d geo align xmin xmax ymin ymax"
proof -
  have step: "bindf m (\<lambda>r2. bindf (calculate_bins_and_scales dmeters r2) (\<lambda>r3. compute r3 input)) =
        bindf m (\<lambda>r2. bindf (calculate_bins_and_scales dmeters r2) (\<lambda>r3. compute r3 input'))"
    for m
    by (intro bindf_cong calc_compute_perm[OF assms])
  show ?thesis
    unfolding GeoRaster_bounds_def Let_def
    by (rule step)
qed

text \<open>
  Claim C7. Aggregation does not depend on the order of the input rows: on a
  permutation of the rows both constructors return the same result (the same raster,
  with the same dense buffer, or the same fault), and so does \<^verbatim>\<open>compute\<close> on a raster
  whose buffer is still empty and whose number of bins is the product of its bin counts,
  which is how the constructors call it.
\<close>

theorem aggregation_order_independent:
  assumes "mset input = mset input'"
  shows "GeoRaster_data dmeters mem lowest input d geo align =
           GeoRaster_data dmeters mem lowest input' d geo align \<and>
         GeoRaster_bounds dmeters mem lowest input d geo align xmin xmax ymin ymax =
           GeoRaster_bounds dmeters mem lowest input' d geo align xmin xmax ymin ymax \<and>
         (\<forall>r. z r = [] \<and> num_bins r = num_x_bins r * num_y_bins r \<longrightarrow>
            compute r input = compute r input')"
  using GeoRaster_data_perm[OF assms] GeoRaster_bounds_perm[OF assms] compute_perm[OF assms]
  by blast

theorem aggregation_order_independent_witness:
  "mset example_input = mset example_shuffled \<and>
   GeoRaster_data flat_distance zero_mem (- 1000) example_input 50 False True =
     GeoRaster_data flat_distance zero_mem (- 1000) example_shuffled 50 False True \<and>
   GeoRaster_bounds flat_distance zero_mem (- 1000) example_shuffled 50 False False 0 100 0 100 =
     example_raster \<and>
   z (projr (GeoRaster_bounds flat_distance zero_mem (- 1000) example_shuffled 50 False False
        0 100 0 100)) = [7, - 1000, - 1000, - 1000]"
proof -
  have m: "mset example_input = mset example_shuffled"
    by (simp add: example_input_def example_shuffled_def)
  have zr: "z (projr example_raster) = [7, - 1000, - 1000, - 1000]" by code_simp
  note t1 = aggregation_order_independent[OF m, of flat_distance zero_mem "- 1000" 50 False True
      0 100 0 100]
  note t2 = aggregation_order_independent[OF m, of flat_distance zero_mem "- 1000" 50 False False
      0 100 0 100]
  from t1 t2 m zr show ?thesis by (simp add: example_raster_def)
qed

section \<open>Neighbourhood average and dense emission\<close>

lemma z_at_cell:
  assumes "grid_ok r" "0 \<le> x" "x < num_x_bins r" "0 \<le> y" "y < num_y_bins r"
  shows "z_at r (x_y_bin_to_bin_index x y (num_x_bins r)) = Inr (cell_value r (x, y))"
    and "0 \<le> x_y_bin_to_bin_index x y (num_x_bins r)"
    and "x_y_bin_to_bin_index x y (num_x_bins r) < num_bins r"
  using assms bin_index_bounds[of x "num_x_bins r" y "num_y_bins r"]
  by (auto simp: z_at_def cell_value_def grid_ok_def x_y_bin_to_bin_index_def)

lemma live_values_simps [simp]:
  "live_values r [] = []"
  "live_values r (cs @ cs') = live_values r cs @ live_values r cs'"
  by (simp_all add: live_values_def)

lemma avg_cell_ok:
  assumes "grid_ok r"
  shows "avg_cell r y x acc =
     Inr (fst acc + sum_list (live_values r (row_cells r y [x])),
          snd acc + int (length (live_values r (row_cells r y [x]))))"
  using assms z_at_cell(1)[OF assms, of x y]
  by (auto simp: avg_cell_def row_cells_def live_values_def)

lemma row_cells_Cons: "row_cells r y (x # xs) = row_cells r y [x] @ row_cells r y xs"
  by (simp add: row_cells_def)

lemma avg_row_ok:
  assumes "grid_ok r"
  shows "foldf (avg_cell r y) xs acc =
     Inr (fst acc + sum_list (live_values r (row_cells r y xs)),
          snd acc + int (length (live_values r (row_cells r y xs))))"
proof (induction xs arbitrary: acc)
  case Nil
  then show ?case by (simp add: row_cells_def)
next
  case (Cons x xs)
  from avg_cell_ok[OF assms, of y x acc] show ?case
    by (simp add: Cons.IH row_cells_Cons[of r y x xs] add.assoc)
qed

lemma avg_window_ok:
  assumes "grid_ok r"
  shows "foldf (\<lambda>y. foldf (avg_cell r y) xs) ys acc =
     Inr (fst acc + sum_list (live_values r (concat (map (\<lambda>y. row_cells r y xs) ys))),
          snd acc + int (length (live_values r (concat (map (\<lambda>y. row_cells r y xs) ys)))))"
proof (induction ys arbitrary: acc)
  case Nil
  then show ?case by simp
next
  case (Cons y ys)
  from avg_row_ok[OF assms, of y xs acc] show ?case
    by (simp add: Cons.IH add.assoc)
qed

lemma window_values_live:
  "window_values r xc yc rad =
     live_values r (concat (map (\<lambda>y. row_cells r y [xc - rad .. xc + rad]) [yc - rad .. yc + rad]))"
  by (simp add: window_values_def window_cells_def live_values_def row_cells_def)

lemma fill_bin_ok:
  assumes "grid_ok r"
  shows "fill_bin_from_avg_neighbors r xc yc rad =
     Inr (if window_values r xc yc rad = [] then null_sentinel r
          else mean (window_values r xc yc rad))"
  by (simp add: fill_bin_from_avg_neighbors_def avg_window_ok[OF assms] window_values_live mean_def)

lemma set_window_cells:
  "set (window_cells r xc yc rad) =
     {(x, y). xc - rad \<le> x \<and> x \<le> xc + rad \<and> yc - rad \<le> y \<and> y \<le> yc + rad \<and>
              0 \<le> x \<and> x < num_x_bins r \<and> 0 \<le> y \<and> y < num_y_bins r}"
  by (auto simp: window_cells_def)

lemma distinct_cells:
  assumes "distinct xs" "distinct ys"
  shows "distinct (concat (map (\<lambda>y. map (\<lambda>x. (x, y)) (filter (P y) xs)) ys))"
  using assms by (induction ys) (auto simp: distinct_map inj_on_def)

lemma distinct_window_cells: "distinct (window_cells r xc yc rad)"
  unfolding window_cells_def by (rule distinct_cells) simp_all

lemma live_values_split:
  assumes "distinct cs" "c \<in> set cs" "cell_value r c \<noteq> null_sentinel r"
  shows "sum_list (live_values r cs) =
           cell_value r c + sum_list (live_values r (filter (\<lambda>c'. c' \<noteq> c) cs)) \<and>
         length (live_values r cs) = Suc (length (live_values r (filter (\<lambda>c'. c' \<noteq> c) cs)))"
  using assms
proof (induction cs)
  case Nil
  then show ?case by simp
next
  case (Cons a cs)
  show ?case
  proof (cases "a = c")
    case True
    with Cons.prems have "filter (\<lambda>c'. c' \<noteq> c) cs = cs" by (auto simp: filter_id_conv)
    with True Cons.prems show ?thesis by (simp add: live_values_def)
  next
    case False
    with Cons show ?thesis by (auto simp: live_values_def)
  qed
qed



lemma emit_bin_ok:
  assumes "grid_ok r" "row_size out = num_bins r"
    "0 \<le> x" "x < num_x_bins r" "0 \<le> y" "y < num_y_bins r"
  shows "emit_bin r radius y x out = Inr (out\<lparr>rows := rows out @ [expected_row r radius (x, y)]\<rparr>)"
proof -
  note c = z_at_cell[OF assms(1,3-6)]
  have w: "write_row out (x_y_bin_to_bin_index x y (num_x_bins r), ox, oy, v) =
        Inr (out\<lparr>rows := rows out @ [(x + y * num_x_bins r, ox, oy, v)]\<rparr>)" for ox oy v
    using c(2,3) assms(2) by (simp add: write_row_def x_y_bin_to_bin_index_def)
  show ?thesis
    by (simp add: emit_bin_def Let_def c(1) w expected_row_def expected_value_def
        fill_bin_ok[OF assms(1)])
qed

lemma emit_row_ok:
  assumes "grid_ok r" "row_size out = num_bins r"
    "\<forall>x\<in>set xs. 0 \<le> x \<and> x < num_x_bins r \<and> 0 \<le> y \<and> y < num_y_bins r"
  shows "foldf (emit_bin r radius y) xs out =
     Inr (out\<lparr>rows := rows out @ map (\<lambda>x. expected_row r radius (x, y)) xs\<rparr>)"
  using assms(2,3)
proof (induction xs arbitrary: out)
  case Nil
  then show ?case by simp
next
  case (Cons x xs)
  from Cons.prems have "0 \<le> x" "x < num_x_bins r" "0 \<le> y" "y < num_y_bins r" by auto
  from emit_bin_ok[OF assms(1) Cons.prems(1) this, of radius] Cons.prems show ?case
    by (simp add: Cons.IH)
qed

lemma emit_grid_ok:
  assumes "grid_ok r" "row_size out = num_bins r"
    "\<forall>y\<in>set ys. 0 \<le> y \<and> y < num_y_bins r"
  shows "foldf (\<lambda>y. foldf (emit_bin r radius y) [0 .. num_x_bins r - 1]) ys out =
     Inr (out\<lparr>rows := rows out @
       map (expected_row r radius)
         (concat (map (\<lambda>y. map (\<lambda>x. (x, y)) [0 .. num_x_bins r - 1]) ys))\<rparr>)"
  using assms(2,3)
proof (induction ys arbitrary: out)
  case Nil
  then show ?case by simp
next
  case (Cons y ys)
  have "\<forall>x\<in>set [0 .. num_x_bins r - 1]. 0 \<le> x \<and> x < num_x_bins r \<and> 0 \<le> y \<and> y < num_y_bins r"
    using Cons.prems by auto
  from emit_row_ok[OF assms(1) Cons.prems(1) this, of radius] Cons.prems show ?case
    by (simp add: Cons.IH comp_def)
qed

lemma outputDenseColumns_ok:
  assumes "grid_ok r"
  shows "outputDenseColumns r radius =
     Inr (\<lparr>row_size = num_bins r, rows = map (expected_row r radius) (grid_cells r)\<rparr>, num_bins r)"
proof -
  have "\<forall>y\<in>set [0 .. num_y_bins r - 1]. 0 \<le> y \<and> y < num_y_bins r" by auto
  from emit_grid_ok[OF assms _ this, of "\<lparr>row_size = num_bins r, rows = []\<rparr>" radius]
  show ?thesis by (simp add: outputDenseColumns_def grid_cells_def)
qed



text \<open>
  Claim C6. On a raster that satisfies the grid invariant, the neighbourhood averager
  returns the arithmetic mean of the non-null values stored in the cells of the square
  window of the given radius around the target bin, clipped to the grid, and
  \<open>null_sentinel\<close> when there is no such value. The emitter writes, for the bins in
  row-major order, the stored value when it is not null; for a null bin it writes null
  when the radius is zero, and otherwise the averager's result when that is not null
  and null when it is.
\<close>

theorem neighborhood_fill:
  assumes "grid_ok r"
  shows "fill_bin_from_avg_neighbors r x_bin y_bin radius =
           Inr (if window_values r x_bin y_bin radius = [] then null_sentinel r
                else mean (window_values r x_bin y_bin radius)) \<and>
         set (window_cells r x_bin y_bin radius) =
           {(x, y). x_bin - radius \<le> x \<and> x \<le> x_bin + radius \<and>
                    y_bin - radius \<le> y \<and> y \<le> y_bin + radius \<and>
                    0 \<le> x \<and> x < num_x_bins r \<and> 0 \<le> y \<and> y < num_y_bins r} \<and>
         distinct (window_cells r x_bin y_bin radius) \<and>
         (\<exists>out. outputDenseColumns r radius = Inr (out, num_bins r) \<and>
            map (\<lambda>w. snd (snd (snd w))) (rows out) = map (expected_value r radius) (grid_cells r)) \<and>
         (\<forall>c. expected_value r radius c =
            (if cell_value r c \<noteq> null_sentinel r then Some (cell_value r c)
             else if radius = 0 then None
             else if window_values r (fst c) (snd c) radius = [] then None
             else if mean (window_values r (fst c) (snd c) radius) = null_sentinel r then None
             else Some (mean (window_values r (fst c) (snd c) radius))))"
proof -
  have "\<exists>out. outputDenseColumns r radius = Inr (out, num_bins r) \<and>
            map (\<lambda>w. snd (snd (snd w))) (rows out) = map (expected_value r radius) (grid_cells r)"
    by (simp add: outputDenseColumns_ok[OF assms] expected_row_def comp_def)
  moreover have "\<forall>c. expected_value r radius c =
            (if cell_value r c \<noteq> null_sentinel r then Some (cell_value r c)
             else if radius = 0 then None
             else if window_values r (fst c) (snd c) radius = [] then None
             else if mean (window_values r (fst c) (snd c) radius) = null_sentinel r then None
             else Some (mean (window_values r (fst c) (snd c) radius)))"
    by (simp add: expected_value_def fill_bin_ok[OF assms])
  ultimately show ?thesis
    using fill_bin_ok[OF assms, of x_bin y_bin radius] set_window_cells[of r x_bin y_bin radius]
      distinct_window_cells[of r x_bin y_bin radius]
    by blast
qed

theorem neighborhood_fill_witness:
  "grid_ok (projr strip_raster) \<and>
   window_values (projr strip_raster) 1 0 1 = [7] \<and>
   fill_bin_from_avg_neighbors (projr strip_raster) 1 0 1 = Inr 7 \<and>
   window_values (projr strip_raster) 2 0 1 = [] \<and>
   fill_bin_from_avg_neighbors (projr strip_raster) 2 0 1 = Inr (- 1000) \<and>
   map (\<lambda>w. snd (snd (snd w))) (rows (fst (projr (outputDenseColumns (projr strip_raster) 1)))) =
     [Some 7, Some 7, None] \<and>
   map (\<lambda>w. snd (snd (snd w))) (rows (fst (projr (outputDenseColumns (projr strip_raster) 0)))) =
     [Some 7, None, None]"
proof -
  have g: "grid_ok (projr strip_raster)" by code_simp
  have w1: "window_values (projr strip_raster) 1 0 1 = [7]" by code_simp
  have w2: "window_values (projr strip_raster) 2 0 1 = []" by code_simp
  have n: "null_sentinel (projr strip_raster) = - 1000" by code_simp
  have e1: "map (expected_value (projr strip_raster) 1) (grid_cells (projr strip_raster)) =
      [Some 7, Some 7, None]" by code_simp
  have e0: "map (expected_value (projr strip_raster) 0) (grid_cells (projr strip_raster)) =
      [Some 7, None, None]" by code_simp
  from neighborhood_fill[OF g, of 1 0 1] w1
  have f1: "fill_bin_from_avg_neighbors (projr strip_raster) 1 0 1 = Inr 7"
    by (simp add: mean_def)
  from neighborhood_fill[OF g, of 2 0 1] w2 n
  have f2: "fill_bin_from_avg_neighbors (projr strip_raster) 2 0 1 = Inr (- 1000)"
    by simp
  from neighborhood_fill[OF g, of 0 0 1] e1
  have o1: "map (\<lambda>w. snd (snd (snd w)))
      (rows (fst (projr (outputDenseColumns (projr strip_raster) 1)))) = [Some 7, Some 7, None]"
    by auto
  from neighborhood_fill[OF g, of 0 0 0] e0
  have o0: "map (\<lambda>w. snd (snd (snd w)))
      (rows (fst (projr (outputDenseColumns (projr strip_raster) 0)))) = [Some 7, None, None]"
    by auto
  from g w1 w2 f1 f2 o1 o0 show ?thesis by blast
qed






lemma window_values_live_cells:
  "window_values r xc yc rad = live_values r (window_cells r xc yc rad)"
  by (simp add: window_values_def live_values_def)

text \<open>
  Claim C10. The window of the neighbourhood averager contains the target bin: called
  with a non-negative radius on a bin of the grid whose stored value is not null, the
  averager counts that value, once, together with the non-null values of the other
  cells of the window.
\<close>

theorem average_counts_target_bin:
  assumes "grid_ok r" "0 \<le> x_bin" "x_bin < num_x_bins r" "0 \<le> y_bin" "y_bin < num_y_bins r"
    "0 \<le> radius" "cell_value r (x_bin, y_bin) \<noteq> null_sentinel r"
  shows "(x_bin, y_bin) \<in> set (window_cells r x_bin y_bin radius) \<and>
         fill_bin_from_avg_neighbors r x_bin y_bin radius =
           Inr ((cell_value r (x_bin, y_bin) +
                 sum_list (live_values r
                   (filter (\<lambda>c. c \<noteq> (x_bin, y_bin)) (window_cells r x_bin y_bin radius)))) /
                (1 + of_nat (length (live_values r
                   (filter (\<lambda>c. c \<noteq> (x_bin, y_bin)) (window_cells r x_bin y_bin radius))))))"
proof -
  have m: "(x_bin, y_bin) \<in> set (window_cells r x_bin y_bin radius)"
    using assms by (simp add: set_window_cells)
  note s = live_values_split[OF distinct_window_cells m assms(7)]
  from s have ne: "window_values r x_bin y_bin radius \<noteq> []"
    by (auto simp: window_values_live_cells)
  show ?thesis
    using m s ne fill_bin_ok[OF assms(1), of x_bin y_bin radius]
    by (simp add: mean_def window_values_live_cells)
qed

theorem average_counts_target_bin_witness:
  "grid_ok (projr scenario_raster) \<and>
   cell_value (projr scenario_raster) (0, 0) = 5 \<and>
   live_values (projr scenario_raster)
     (filter (\<lambda>c. c \<noteq> (0, 0)) (window_cells (projr scenario_raster) 0 0 1)) = [9] \<and>
   fill_bin_from_avg_neighbors (projr scenario_raster) 0 0 1 = Inr 7 \<and>
   fill_bin_from_avg_neighbors (projr scenario_raster) 0 0 0 = Inr 5"
proof -
  have g: "grid_ok (projr scenario_raster)" by code_simp
  have x: "(0::int) < num_x_bins (projr scenario_raster)" by code_simp
  have y: "(0::int) < num_y_bins (projr scenario_raster)" by code_simp
  have v: "cell_value (projr scenario_raster) (0, 0) = 5" by code_simp
  have n: "cell_value (projr scenario_raster) (0, 0) \<noteq> null_sentinel (projr scenario_raster)"
    by code_simp
  have o1: "live_values (projr scenario_raster)
     (filter (\<lambda>c. c \<noteq> (0, 0)) (window_cells (projr scenario_raster) 0 0 1)) = [9]" by code_simp
  have o0: "live_values (projr scenario_raster)
     (filter (\<lambda>c. c \<noteq> (0, 0)) (window_cells (projr scenario_raster) 0 0 0)) = []" by code_simp
  from average_counts_target_bin[OF g _ x _ y _ n, of 1] v o1
  have f1: "fill_bin_from_avg_neighbors (projr scenario_raster) 0 0 1 = Inr 7" by simp
  from average_counts_target_bin[OF g _ x _ y _ n, of 0] v o0
  have f0: "fill_bin_from_avg_neighbors (projr scenario_raster) 0 0 0 = Inr 5" by simp
  from g v o1 f1 f0 show ?thesis by blast
qed

section \<open>Scales\<close>

lemma calculate_planar:
  assumes "calculate_bins_and_scales dmeters r0 = Inr r" "\<not> geographic_coords r0"
  shows "num_x_bins r = trunc ((x_max r0 - x_min r0) / bin_dim_meters r0)"
    "num_y_bins r = trunc ((y_max r0 - y_min r0) / bin_dim_meters r0)"
    "x_scale_input_to_bin r = 1 / bin_dim_meters r0" "y_scale_input_to_bin r = 1 / bin_dim_meters r0"
    "x_scale_bin_to_input r = bin_dim_meters r0" "y_scale_bin_to_input r = bin_dim_meters r0"
  using assms
  by (auto simp: calculate_bins_and_scales_def Let_def bindf_eq_Inr fdiv_def to_int64_def set_num_bins_def
      split: if_splits)

lemma calculate_scales:
  assumes "calculate_bins_and_scales dmeters r0 = Inr r"
  shows "x_scale_input_to_bin r * x_scale_bin_to_input r = 1"
    "y_scale_input_to_bin r * y_scale_bin_to_input r = 1"
  using assms
  by (auto simp: calculate_bins_and_scales_def Let_def bindf_eq_Inr fdiv_def set_num_bins_def
      split: if_splits)


lemma compute_keeps:
  assumes "compute r3 input = Inr r" "z r3 = []"
  shows "r = r3\<lparr>z := z r\<rparr>"
  using compute_result(2)[OF assms] by simp


section \<open>Bin alignment\<close>

lemma align_inclusive_bounds:
  assumes "align_bins_max_inclusive r0 = Inr r"
  shows "x_min r = of_int \<lfloor>x_min r0 / bin_dim_meters r0\<rfloor> * bin_dim_meters r0"
    "x_max r = of_int \<lfloor>x_max r0 / bin_dim_meters r0\<rfloor> * bin_dim_meters r0 + bin_dim_meters r0"
    "y_min r = of_int \<lfloor>y_min r0 / bin_dim_meters r0\<rfloor> * bin_dim_meters r0"
    "y_max r = of_int \<lfloor>y_max r0 / bin_dim_meters r0\<rfloor> * bin_dim_meters r0 + bin_dim_meters r0"
  using assms by (auto simp: align_bins_max_inclusive_def Let_def split: if_splits)

lemma align_exclusive_bounds:
  assumes "align_bins_max_exclusive r0 = Inr r"
  shows "x_min r = of_int \<lfloor>x_min r0 / bin_dim_meters r0\<rfloor> * bin_dim_meters r0"
    "x_max r = of_int \<lceil>x_max r0 / bin_dim_meters r0\<rceil> * bin_dim_meters r0"
    "y_min r = of_int \<lfloor>y_min r0 / bin_dim_meters r0\<rfloor> * bin_dim_meters r0"
    "y_max r = of_int \<lceil>y_max r0 / bin_dim_meters r0\<rceil> * bin_dim_meters r0"
  using assms by (auto simp: align_bins_max_exclusive_def Let_def split: if_splits)

lemma planar_result:
  assumes c: "calculate_bins_and_scales dmeters r2 = Inr r3" and k: "compute r3 input = Inr r"
    and z2: "z r2 = []" and g: "\<not> geographic_coords r2"
  shows "x_min r = x_min r2" "x_max r = x_max r2" "y_min r = y_min r2" "y_max r = y_max r2"
    "num_x_bins r = trunc ((x_max r2 - x_min r2) / bin_dim_meters r2)"
    "num_y_bins r = trunc ((y_max r2 - y_min r2) / bin_dim_meters r2)"
proof -
  from calculate_frame(2)[OF c] z2 have "z r3 = []" by simp
  from compute_keeps[OF k this] have r: "r = r3\<lparr>z := z r\<rparr>" .
  show "x_min r = x_min r2" "x_max r = x_max r2" "y_min r = y_min r2" "y_max r = y_max r2"
    "num_x_bins r = trunc ((x_max r2 - x_min r2) / bin_dim_meters r2)"
    "num_y_bins r = trunc ((y_max r2 - y_min r2) / bin_dim_meters r2)"
    using calculate_frame[OF c] calculate_planar[OF c g] by (subst r, simp)+
qed

text \<open>
  Claim C2. With planar coordinates and alignment enabled, the constructor that derives
  the bounds from the data aligns them max-inclusive, \<open>min' = floor(min/d)*d\<close> and
  \<open>max' = floor(max/d)*d + d\<close> on both axes, and the constructor with explicit bounds
  aligns them max-exclusive, \<open>min' = floor(min/d)*d\<close> and \<open>max' = ceil(max/d)*d\<close>; the
  bin counts are the aligned ranges divided by \<open>d\<close>. For data from 0 to 40 and bins of
  10 this gives five bins per axis over \<open>[0, 50)\<close> for data-derived bounds and four bins
  over \<open>[0, 40)\<close> for explicit bounds.
\<close>

theorem bin_alignment:
  "(\<forall>r. input \<noteq> [] \<and> GeoRaster_data dmeters mem lowest input d False True = Inr r \<longrightarrow>
      x_min r = of_int \<lfloor>Min (set (map row_x input)) / d\<rfloor> * d \<and>
      x_max r = of_int \<lfloor>Max (set (map row_x input)) / d\<rfloor> * d + d \<and>
      y_min r = of_int \<lfloor>Min (set (map row_y input)) / d\<rfloor> * d \<and>
      y_max r = of_int \<lfloor>Max (set (map row_y input)) / d\<rfloor> * d + d \<and>
      num_x_bins r = trunc ((x_max r - x_min r) / d) \<and>
      num_y_bins r = trunc ((y_max r - y_min r) / d)) \<and>
   (\<forall>r. GeoRaster_bounds dmeters mem lowest input d False True xmin xmax ymin ymax = Inr r \<longrightarrow>
      x_min r = of_int \<lfloor>xmin / d\<rfloor> * d \<and>
      x_max r = of_int \<lceil>xmax / d\<rceil> * d \<and>
      y_min r = of_int \<lfloor>ymin / d\<rfloor> * d \<and>
      y_max r = of_int \<lceil>ymax / d\<rceil> * d \<and>
      num_x_bins r = trunc ((x_max r - x_min r) / d) \<and>
      num_y_bins r = trunc ((y_max r - y_min r) / d))"
proof (intro conjI allI impI)
  fix r
  assume a: "input \<noteq> [] \<and> GeoRaster_data dmeters mem lowest input d False True = Inr r"
  let ?r1 = "(init_members mem lowest d False)
                      \<lparr>x_min := fst (get_column_min_max (map row_x input)),
                       x_max := snd (get_column_min_max (map row_x input)),
                       y_min := fst (get_column_min_max (map row_y input)),
                       y_max := snd (get_column_min_max (map row_y input))\<rparr>"
  from a GeoRaster_data_Inr[of dmeters mem lowest input d False True r] obtain r2 r3 where
    al: "align_bins_max_inclusive ?r1 = Inr r2"
    and c: "calculate_bins_and_scales dmeters r2 = Inr r3" and k: "compute r3 input = Inr r"
    by auto
  from align_inclusive_frame[OF al] have f: "z r2 = []" "\<not> geographic_coords r2" "bin_dim_meters r2 = d"
    by (simp_all add: init_members_def)
  note p = planar_result[OF c k f(1,2)]
  from a have mm: "get_column_min_max (map row_x input) = (Min (set (map row_x input)), Max (set (map row_x input)))"
    "get_column_min_max (map row_y input) = (Min (set (map row_y input)), Max (set (map row_y input)))"
    by (simp_all add: get_column_min_max_set)
  note b = align_inclusive_bounds[OF al]
  show "x_min r = of_int \<lfloor>Min (set (map row_x input)) / d\<rfloor> * d"
    using p(1) b(1) mm by (simp add: init_members_def)
  show "x_max r = of_int \<lfloor>Max (set (map row_x input)) / d\<rfloor> * d + d"
    using p(2) b(2) mm by (simp add: init_members_def)
  show "y_min r = of_int \<lfloor>Min (set (map row_y input)) / d\<rfloor> * d"
    using p(3) b(3) mm by (simp add: init_members_def)
  show "y_max r = of_int \<lfloor>Max (set (map row_y input)) / d\<rfloor> * d + d"
    using p(4) b(4) mm by (simp add: init_members_def)
  show "num_x_bins r = trunc ((x_max r - x_min r) / d)"
    using p(1,2,5) f(3) by simp
  show "num_y_bins r = trunc ((y_max r - y_min r) / d)"
    using p(3,4,6) f(3) by simp
next
  fix r
  assume a: "GeoRaster_bounds dmeters mem lowest input d False True xmin xmax ymin ymax = Inr r"
  let ?r1 = "(init_members mem lowest d False)
                      \<lparr>x_min := xmin, x_max := xmax, y_min := ymin, y_max := ymax\<rparr>"
  from GeoRaster_bounds_Inr[OF a] obtain r2 r3 where
    al: "align_bins_max_exclusive ?r1 = Inr r2"
    and c: "calculate_bins_and_scales dmeters r2 = Inr r3" and k: "compute r3 input = Inr r"
    by auto
  from align_exclusive_frame[OF al] have f: "z r2 = []" "\<not> geographic_coords r2" "bin_dim_meters r2 = d"
    by (simp_all add: init_members_def)
  note p = planar_result[OF c k f(1,2)]
  note b = align_exclusive_bounds[OF al]
  show "x_min r = of_int \<lfloor>xmin / d\<rfloor> * d"
    using p(1) b(1) by (simp add: init_members_def)
  show "x_max r = of_int \<lceil>xmax / d\<rceil> * d"
    using p(2) b(2) by (simp add: init_members_def)
  show "y_min r = of_int \<lfloor>ymin / d\<rfloor> * d"
    using p(3) b(3) by (simp add: init_members_def)
  show "y_max r = of_int \<lceil>ymax / d\<rceil> * d"
    using p(4) b(4) by (simp add: init_members_def)
  show "num_x_bins r = trunc ((x_max r - x_min r) / d)"
    using p(1,2,5) f(3) by simp
  show "num_y_bins r = trunc ((y_max r - y_min r) / d)"
    using p(3,4,6) f(3) by simp
qed

theorem bin_alignment_witness:
  "\<not> isl aligned_data_raster \<and>
   x_min (projr aligned_data_raster) = 0 \<and> x_max (projr aligned_data_raster) = 50 \<and>
   y_min (projr aligned_data_raster) = 0 \<and> y_max (projr aligned_data_raster) = 50 \<and>
   num_x_bins (projr aligned_data_raster) = 5 \<and> num_y_bins (projr aligned_data_raster) = 5 \<and>
   \<not> isl aligned_bounds_raster \<and>
   x_min (projr aligned_bounds_raster) = 0 \<and> x_max (projr aligned_bounds_raster) = 40 \<and>
   y_min (projr aligned_bounds_raster) = 0 \<and> y_max (projr aligned_bounds_raster) = 40 \<and>
   num_x_bins (projr aligned_bounds_raster) = 4 \<and> num_y_bins (projr aligned_bounds_raster) = 4"
proof -
  have d: "\<not> isl aligned_data_raster" by code_simp
  then have ed: "GeoRaster_data flat_distance zero_mem (- 1000) [(0, 0, Some 1), (40, 40, Some 2)]
      10 False True = Inr (projr aligned_data_raster)"
    by (simp add: aligned_data_raster_def)
  have b: "\<not> isl aligned_bounds_raster" by code_simp
  then have eb: "GeoRaster_bounds flat_distance zero_mem (- 1000) [(0, 0, Some 1), (40, 40, Some 2)]
      10 False True 0 40 0 40 = Inr (projr aligned_bounds_raster)"
    by (simp add: aligned_bounds_raster_def)
  note t = bin_alignment[of "[(0, 0, Some 1), (40, 40, Some 2)]" flat_distance zero_mem "- 1000" 10
      0 40 0 40]
  have tr: "trunc ((50 - 0) / 10) = 5" "trunc ((40 - 0) / 10) = 4" by (simp_all add: trunc_def)
  from t ed have
    "x_min (projr aligned_data_raster) = 0 \<and> x_max (projr aligned_data_raster) = 50 \<and>
     y_min (projr aligned_data_raster) = 0 \<and> y_max (projr aligned_data_raster) = 50 \<and>
     num_x_bins (projr aligned_data_raster) = 5 \<and> num_y_bins (projr aligned_data_raster) = 5"
    using tr by (simp add: row_x_def row_y_def)
  moreover from t eb have
    "x_min (projr aligned_bounds_raster) = 0 \<and> x_max (projr aligned_bounds_raster) = 40 \<and>
     y_min (projr aligned_bounds_raster) = 0 \<and> y_max (projr aligned_bounds_raster) = 40 \<and>
     num_x_bins (projr aligned_bounds_raster) = 4 \<and> num_y_bins (projr aligned_bounds_raster) = 4"
    using tr by simp
  ultimately show ?thesis using d b by blast
qed

section \<open>Grid invariants\<close>

















section \<open>Scale round trip\<close>








section \<open>Domains that are degenerate, inverted or empty\<close>






lemma wrap64_0 [simp]: "wrap64 0 = 0"
  by (simp add: wrap64_def)




lemma GeoRaster_bounds_unfold:
  "GeoRaster_bounds dmeters mem lowest input d geo align xmin xmax ymin ymax =
     bindf (if align \<and> \<not> geo
            then align_bins_max_exclusive
                   ((init_members mem lowest d geo)
                      \<lparr>x_min := xmin, x_max := xmax, y_min := ymin, y_max := ymax\<rparr>)
            else Inr ((init_members mem lowest d geo)
                      \<lparr>x_min := xmin, x_max := xmax, y_min := ymin, y_max := ymax\<rparr>))
       (\<lambda>r2. bindf (calculate_bins_and_scales dmeters r2) (\<lambda>r3. compute r3 input))"
  by (simp add: GeoRaster_bounds_def Let_def init_members_def)

lemma GeoRaster_bounds_no_rows:
  assumes "GeoRaster_bounds dmeters mem lowest input d geo align xmin xmax ymin ymax = Inr r"
  shows "GeoRaster_bounds dmeters mem lowest [] d geo align xmin xmax ymin ymax =
           Inr (r\<lparr>z := replicate (nat (num_bins r)) lowest\<rparr>)"
proof -
  from GeoRaster_bounds_Inr[OF assms] obtain r2 r3 where
    a: "(if align \<and> \<not> geo
            then align_bins_max_exclusive
                   ((init_members mem lowest d geo)
                      \<lparr>x_min := xmin, x_max := xmax, y_min := ymin, y_max := ymax\<rparr>)
            else Inr ((init_members mem lowest d geo)
                      \<lparr>x_min := xmin, x_max := xmax, y_min := ymin, y_max := ymax\<rparr>)) = Inr r2"
    and c: "calculate_bins_and_scales dmeters r2 = Inr r3" and k: "compute r3 input = Inr r"
    by blast
  from a have r2: "z r2 = []" "null_sentinel r2 = lowest"
    by (auto split: if_splits dest: align_exclusive_frame simp: init_members_def)
  from calculate_frame(2,3)[OF c] r2
  have r3: "z r3 = []" "null_sentinel r3 = lowest"
    by auto
  note res = compute_result[OF k r3(1)]
  have "GeoRaster_bounds dmeters mem lowest [] d geo align xmin xmax ymin ymax = compute r3 []"
    by (simp only: GeoRaster_bounds_unfold a bindf_Inr c)
  also have "\<dots> = Inr (r3\<lparr>z := replicate (nat (num_bins r3)) (null_sentinel r3)\<rparr>)"
    using res(1) r3(1) by (simp add: compute_cases)
  finally have n: "GeoRaster_bounds dmeters mem lowest [] d geo align xmin xmax ymin ymax =
      Inr (r3\<lparr>z := replicate (nat (num_bins r3)) (null_sentinel r3)\<rparr>)" .
  from res(2) obtain zs where rz: "r = r3\<lparr>z := zs\<rparr>" by blast
  show ?thesis unfolding n by (simp add: rz r3(2))
qed

text \<open>
  Claim C4, amended. The constructor that derives the bounds from the data, given zero
  input rows, returns without a fault a raster with zero bins on both axes and an
  empty dense buffer, for which the emitter declares and writes no output row. The
  constructor with explicit bounds sizes the grid from the bounds alone: on zero rows
  it returns the raster it returns on any other input with the same bounds, with every
  bin null.
\<close>

theorem empty_input:
  "(\<exists>r. GeoRaster_data dmeters mem lowest [] d geo align = Inr r \<and>
        num_x_bins r = 0 \<and> num_y_bins r = 0 \<and> num_bins r = 0 \<and> z r = [] \<and>
        outputDenseColumns r radius = Inr (\<lparr>row_size = 0, rows = []\<rparr>, 0)) \<and>
   (\<forall>input r. GeoRaster_bounds dmeters mem lowest input d geo align xmin xmax ymin ymax = Inr r \<longrightarrow>
        GeoRaster_bounds dmeters mem lowest [] d geo align xmin xmax ymin ymax =
          Inr (r\<lparr>z := replicate (nat (num_bins r)) lowest\<rparr>))"
proof -
  let ?r = "(init_members mem lowest d geo)\<lparr>num_bins := 0, num_x_bins := 0, num_y_bins := 0\<rparr>"
  have "GeoRaster_data dmeters mem lowest [] d geo align = Inr ?r"
    by (simp add: GeoRaster_data_def Let_def)
  moreover have "outputDenseColumns ?r radius = Inr (\<lparr>row_size = 0, rows = []\<rparr>, 0)"
    by (simp add: outputDenseColumns_def)
  moreover have "z ?r = []" by (simp add: init_members_def)
  ultimately have "\<exists>r. GeoRaster_data dmeters mem lowest [] d geo align = Inr r \<and>
        num_x_bins r = 0 \<and> num_y_bins r = 0 \<and> num_bins r = 0 \<and> z r = [] \<and>
        outputDenseColumns r radius = Inr (\<lparr>row_size = 0, rows = []\<rparr>, 0)"
    by (intro exI[of _ ?r]) simp
  then show ?thesis using GeoRaster_bounds_no_rows by blast
qed

theorem empty_input_witness:
  "\<not> isl (GeoRaster_data flat_distance zero_mem (- 1000) [] 50 False True) \<and>
   num_bins (projr (GeoRaster_data flat_distance zero_mem (- 1000) [] 50 False True)) = 0 \<and>
   z (projr (GeoRaster_data flat_distance zero_mem (- 1000) [] 50 False True)) = [] \<and>
   \<not> isl scenario_raster \<and>
   empty_bounds_raster = Inr ((projr scenario_raster)\<lparr>z := replicate 4 (- 1000)\<rparr>)"
proof -
  have r: "\<not> isl scenario_raster" by code_simp
  then have e: "GeoRaster_bounds flat_distance zero_mem (- 1000)
      [(10, 10, Some 5), (60, 60, Some 9)] 50 False False 0 100 0 100 = Inr (projr scenario_raster)"
    by (simp add: scenario_raster_def)
  have n: "nat (num_bins (projr scenario_raster)) = 4" by code_simp
  note t = empty_input[of flat_distance zero_mem "- 1000" 50 False True 0 0 100 0 100]
  note t' = empty_input[of flat_distance zero_mem "- 1000" 50 False False 0 0 100 0 100]
  from t have "\<not> isl (GeoRaster_data flat_distance zero_mem (- 1000) [] 50 False True) \<and>
   num_bins (projr (GeoRaster_data flat_distance zero_mem (- 1000) [] 50 False True)) = 0 \<and>
   z (projr (GeoRaster_data flat_distance zero_mem (- 1000) [] 50 False True)) = []"
    by auto
  moreover from t' e n have "empty_bounds_raster = Inr ((projr scenario_raster)\<lparr>z := replicate 4 (- 1000)\<rparr>)"
    by (simp add: empty_bounds_raster_def)
  ultimately show ?thesis using r by blast
qed

theorem empty_input_counterexample:
  "\<not> isl empty_bounds_raster \<and>
   num_bins (projr empty_bounds_raster) = 4 \<and>
   z (projr empty_bounds_raster) = [- 1000, - 1000, - 1000, - 1000] \<and>
   length (rows (fst (projr (outputDenseColumns (projr empty_bounds_raster) 0)))) = 4 \<and>
   \<not> isl single_point_raster \<and>
   num_bins (projr single_point_raster) = 0"
proof -
  have 1: "\<not> isl empty_bounds_raster" by code_simp
  have 2: "num_bins (projr empty_bounds_raster) = 4" by code_simp
  have 3: "z (projr empty_bounds_raster) = [- 1000, - 1000, - 1000, - 1000]" by code_simp
  have 4: "length (rows (fst (projr (outputDenseColumns (projr empty_bounds_raster) 0)))) = 4"
    by code_simp
  have 5: "\<not> isl single_point_raster" by code_simp
  have 6: "num_bins (projr single_point_raster) = 0" by code_simp
  from 1 2 3 4 5 6 show ?thesis by blast
qed

end
